theory Spec2Isabelle
  imports Main "HOL-Library.Word"
begin

section \<open>The hardware wallet daemon: a model of \<^verbatim>\<open>src/daemon/daemon.go\<close>\<close>

text \<open>
  The daemon's \<^verbatim>\<open>Run\<close> drives collaborators that live outside the file: the operating
  system (\<^verbatim>\<open>os\<close>, \<^verbatim>\<open>time\<close>, \<^verbatim>\<open>pprof\<close>), the logging package and the api server.
  Their answers are fields of an environment record; every call that \<^verbatim>\<open>Run\<close> makes is
  recorded, with its arguments and its answer, as an event of a trace, in program order.
\<close>

subsection \<open>Go values\<close>

text \<open>
  A Go \<^verbatim>\<open>error\<close> value. \<^verbatim>\<open>*os.PathError\<close> carries the operation, the path and the
  errno; every other error is its message (\<^verbatim>\<open>errors.New\<close>, \<^verbatim>\<open>fmt.Errorf\<close>).
  A nil error is \<open>None\<close> of \<open>error option\<close>.
\<close>

datatype errno = ENOENT | EACCES | EEXIST | ENOTDIR | EIO

datatype error = PathError string string errno | ErrorString string

fun errno_text :: "errno \<Rightarrow> string" where
  "errno_text ENOENT = ''no such file or directory''"
| "errno_text EACCES = ''permission denied''"
| "errno_text EEXIST = ''file exists''"
| "errno_text ENOTDIR = ''not a directory''"
| "errno_text EIO = ''input/output error''"

text \<open>The \<^verbatim>\<open>Error()\<close> method, which \<^verbatim>\<open>%v\<close> prints.\<close>

fun Error :: "error \<Rightarrow> string" where
  "Error (PathError op path e) = op @ '' '' @ path @ '': '' @ errno_text e"
| "Error (ErrorString msg) = msg"

text \<open>
  \<^verbatim>\<open>os.IsNotExist\<close>: true of an error known to report that a file or directory does not
  exist, false of every other error and of nil.
\<close>

fun os_IsNotExist :: "error option \<Rightarrow> bool" where
  "os_IsNotExist (Some (PathError op path ENOENT)) = True"
| "os_IsNotExist _ = False"

text \<open>An open \<^verbatim>\<open>*os.File\<close>, named by the path it was opened at.\<close>

datatype os_File = File string

text \<open>A \<^verbatim>\<open>logrus.Level\<close>, as its number.\<close>

type_synonym level = nat

text \<open>
  Modelled from the spec: \<^verbatim>\<open>skyWallet.DeviceType\<close>, the daemon mode, is declared in the
  device driver library; the spec describes it as a small enumerated set distinguishing the
  emulator from real hardware.
\<close>

datatype DeviceType = DeviceTypeEmulator | DeviceTypeUSB

datatype Device = NewDevice DeviceType

datatype Gateway = NewGateway Device

text \<open>The \<^verbatim>\<open>api.Config\<close> literal that \<^verbatim>\<open>createServer\<close> fills in.\<close>

record api_Config =
  api_EnableCSRF :: bool
  api_DisableHeaderCheck :: bool
  api_HostWhitelist :: "string list"
  api_Mode :: DeviceType
  api_Build :: string

text \<open>A constructed \<^verbatim>\<open>*api.Server\<close>, named by the host it is bound to.\<close>

datatype server = Server string

text \<open>The broken-down local time that \<^verbatim>\<open>time.Now()\<close> reads; \<open>hour\<close> is 0 to 23.\<close>

record gotime =
  year :: int
  month :: nat
  day :: nat
  hour :: nat
  minute :: nat
  second :: nat

subsection \<open>The configuration\<close>

text \<open>
  Modelled from the spec: the \<^verbatim>\<open>Config\<close> struct is declared in another file of the
  package; these are the fields that \<^verbatim>\<open>daemon.go\<close> reads, with the types of their uses.
\<close>

record AppConfig =
  LogLevel :: string
  ColorLog :: bool
  LogToFile :: bool
  DataDirectory :: string
  WebInterfaceAddr :: string
  WebInterfacePort :: int
  ProfileCPU :: bool
  ProfileCPUFile :: string
  HTTPProf :: bool
  HTTPProfHost :: string
  EnableCSRF :: bool
  DisableHeaderCheck :: bool
  hostWhitelist :: "string list"
  daemonMode :: DeviceType

record Config =
  App :: AppConfig
  Build :: string

subsection \<open>The environment and the trace\<close>

record env =
  logging_LevelFromString :: "string \<Rightarrow> error + level"
  filepath_Join :: "string \<Rightarrow> string \<Rightarrow> string"
  os_Stat :: "string \<Rightarrow> error option"
  os_Mkdir :: "string \<Rightarrow> error option"
  os_OpenFile :: "string \<Rightarrow> error + os_File"
  time_Now :: gotime
  os_Create :: "string \<Rightarrow> error + os_File"
  pprof_StartCPUProfile :: "os_File \<Rightarrow> error option"
  api_Create :: "string \<Rightarrow> api_Config \<Rightarrow> Gateway \<Rightarrow> error + server"
  Serve :: "server \<Rightarrow> error option"
  file_Close :: "os_File \<Rightarrow> error option"

text \<open>
  One event for each call on a collaborator (with the answer it gave), each logger call,
  each goroutine started and each channel and wait-group operation.
\<close>

datatype event =
    LevelFromString string "error + level"
  | SetLevel level
  | EnableColors
  | DisableColors
  | Stat string "error option"
  | Mkdir string "error option"
  | OpenFile string "error + os_File"
  | AddHook os_File
  | Create string "error + os_File"
  | StartCPUProfile os_File "error option"
  | StopCPUProfile
  | GoListenAndServe string
  | GoCatchInterrupt
  | GoCatchDebug
  | ApiCreate string api_Config Gateway "error + server"
  | WgAdd
  | GoServe server
  | ServeReturn "error option"
  | SendErrC error
  | WgDone
  | CloseQuit
  | RecvQuit
  | RecvErrC error
  | Shutdown server
  | WgWait
  | Close os_File "error option"
  | Println string
  | LogError string
  | LogInfo string

subsection \<open>\<^verbatim>\<open>createDirIfNotExist\<close>\<close>

text \<open>
  \<^verbatim>\<open>
  if _, err := os.Stat(dir); !os.IsNotExist(err) { return nil }
  return os.Mkdir(dir, 0750)
  \<close>
  The result is the events of the call and the error returned.
\<close>

definition createDirIfNotExist :: "env \<Rightarrow> string \<Rightarrow> event list \<times> error option" where
  "createDirIfNotExist e dir =
     (let err = os_Stat e dir in
      if \<not> os_IsNotExist err then ([Stat dir err], None)
      else ([Stat dir err, Mkdir dir (os_Mkdir e dir)], os_Mkdir e dir))"

fun is_Mkdir :: "event \<Rightarrow> bool" where
  "is_Mkdir (Mkdir dir r) = True"
| "is_Mkdir _ = False"

subsection \<open>The generated model \<^verbatim>\<open>TransactionInput\<close>\<close>

text \<open>
  Both fields are pointers: \<open>None\<close> is the nil pointer. \<^verbatim>\<open>validate.Required\<close> of the
  go-openapi library fails on the zero value of the argument's type, which for a pointer
  is nil, with \<^verbatim>\<open>errors.Required(path, in)\<close>; \<^verbatim>\<open>errors.CompositeValidationError\<close>
  wraps the list of failures.
\<close>

record TransactionInput =
  Hash :: "string option"
  Index :: "64 word option"

datatype Validation = Required string string

datatype CompositeError = CompositeValidationError "Validation list"

definition validate_Required :: "string \<Rightarrow> string \<Rightarrow> 'a option \<Rightarrow> Validation option" where
  "validate_Required path inn data =
     (case data of None \<Rightarrow> Some (Required path inn) | Some v \<Rightarrow> None)"

definition validateHash :: "TransactionInput \<Rightarrow> Validation option" where
  "validateHash m =
     (case validate_Required ''hash'' ''body'' (Hash m) of
        Some err \<Rightarrow> Some err
      | None \<Rightarrow> None)"

definition validateIndex :: "TransactionInput \<Rightarrow> Validation option" where
  "validateIndex m =
     (case validate_Required ''index'' ''body'' (Index m) of
        Some err \<Rightarrow> Some err
      | None \<Rightarrow> None)"

definition Validate :: "TransactionInput \<Rightarrow> CompositeError option" where
  "Validate m =
     (let res = [];
          res = (case validateHash m of Some err \<Rightarrow> res @ [err] | None \<Rightarrow> res);
          res = (case validateIndex m of Some err \<Rightarrow> res @ [err] | None \<Rightarrow> res)
      in if length res > 0 then Some (CompositeValidationError res) else None)"

text \<open>The message of a required-field failure: \<^verbatim>\<open>"%s in %s is required"\<close>.\<close>

fun Validation_message :: "Validation \<Rightarrow> string" where
  "Validation_message (Required field inn) = field @ '' in '' @ inn @ '' is required''"

subsection \<open>Decimal printing and \<^verbatim>\<open>time.Format\<close>\<close>

definition digit :: "nat \<Rightarrow> char" where
  "digit n = ''0123456789'' ! (n mod 10)"

function dec :: "nat \<Rightarrow> string" where
  "dec n = (if n < 10 then [digit n] else dec (n div 10) @ [digit (n mod 10)])"
  by pat_completeness auto
termination
  by (relation "measure id") auto

declare dec.simps [simp del]

text \<open>The verb \<^verbatim>\<open>%d\<close> of \<^verbatim>\<open>fmt\<close> on an \<^verbatim>\<open>int\<close>.\<close>

definition sprint_d :: "int \<Rightarrow> string" where
  "sprint_d x = (if x < 0 then ''-'' @ dec (nat (- x)) else dec (nat x))"

text \<open>
  \<^verbatim>\<open>appendInt\<close> of package \<^verbatim>\<open>time\<close>: the decimal digits of \<open>x\<close>, padded with zeros on
  the left to \<open>width\<close> digits, after a minus sign when \<open>x\<close> is negative.
\<close>

definition appendInt :: "int \<Rightarrow> nat \<Rightarrow> string" where
  "appendInt x width =
     (let ds = dec (nat \<bar>x\<bar>)
      in (if x < 0 then ''-'' else []) @ replicate (width - length ds) (CHR ''0'') @ ds)"

text \<open>The hour on the 12-hour clock, as \<^verbatim>\<open>Format\<close> computes it for the tokens \<^verbatim>\<open>03\<close> and \<^verbatim>\<open>3\<close>.\<close>

definition hour12 :: "gotime \<Rightarrow> nat" where
  "hour12 t = (let hr = hour t mod 12 in if hr = 0 then 12 else hr)"

text \<open>
  \<^verbatim>\<open>Time.Format\<close> reads its layout as the reference time
  \<^verbatim>\<open>Mon Jan 2 15:04:05 MST 2006\<close>: \<^verbatim>\<open>2006\<close> is the year, \<^verbatim>\<open>01\<close> the month,
  \<^verbatim>\<open>02\<close> the day, \<^verbatim>\<open>15\<close> the hour of the 24-hour clock, \<^verbatim>\<open>03\<close> the hour of the
  12-hour clock, \<^verbatim>\<open>04\<close> the minute and \<^verbatim>\<open>05\<close> the second, each with a leading zero;
  \<^verbatim>\<open>06\<close> is the year in two digits and \<^verbatim>\<open>1 2 3 4 5\<close> are month, day, 12-hour hour,
  minute and second without padding. The tests follow the order of the library's
  \<^verbatim>\<open>nextStdChunk\<close>. The tokens for names, zones, half-day marks, fractions, space padding
  and the day of the year are not modelled: \<open>numeric_layout\<close> holds of the layouts that
  have none of them, and on those every other character is copied.
\<close>

function Format :: "string \<Rightarrow> gotime \<Rightarrow> string" where
  "Format layout t =
     (if layout = [] then []
      else if take 2 layout = ''01'' then appendInt (int (month t)) 2 @ Format (drop 2 layout) t
      else if take 2 layout = ''02'' then appendInt (int (day t)) 2 @ Format (drop 2 layout) t
      else if take 2 layout = ''03'' then appendInt (int (hour12 t)) 2 @ Format (drop 2 layout) t
      else if take 2 layout = ''04'' then appendInt (int (minute t)) 2 @ Format (drop 2 layout) t
      else if take 2 layout = ''05'' then appendInt (int (second t)) 2 @ Format (drop 2 layout) t
      else if take 2 layout = ''06'' then appendInt (year t mod 100) 2 @ Format (drop 2 layout) t
      else if take 2 layout = ''15'' then appendInt (int (hour t)) 2 @ Format (drop 2 layout) t
      else if take 1 layout = ''1'' then appendInt (int (month t)) 0 @ Format (drop 1 layout) t
      else if take 4 layout = ''2006'' then appendInt (year t) 4 @ Format (drop 4 layout) t
      else if take 1 layout = ''2'' then appendInt (int (day t)) 0 @ Format (drop 1 layout) t
      else if take 1 layout = ''3'' then appendInt (int (hour12 t)) 0 @ Format (drop 1 layout) t
      else if take 1 layout = ''4'' then appendInt (int (minute t)) 0 @ Format (drop 1 layout) t
      else if take 1 layout = ''5'' then appendInt (int (second t)) 0 @ Format (drop 1 layout) t
      else hd layout # Format (tl layout) t)"
  by pat_completeness auto
termination
  by (relation "measure (\<lambda>(layout, t). length layout)") (auto simp: neq_Nil_conv)

declare Format.simps [simp del]

fun numeric_layout :: "string \<Rightarrow> bool" where
  "numeric_layout [] = True"
| "numeric_layout (c # cs) =
     (c \<notin> set ''JM_PpZ.,'' \<and> \<not> (c = CHR ''-'' \<and> take 2 cs = ''07'')
      \<and> \<not> (c = CHR ''0'' \<and> take 2 cs = ''02'') \<and> numeric_layout cs)"

subsection \<open>\<^verbatim>\<open>initLogFile\<close> and \<^verbatim>\<open>createServer\<close>\<close>

definition initLogFile :: "env \<Rightarrow> Config \<Rightarrow> event list \<times> (error + os_File)" where
  "initLogFile e c =
     (let logDir = filepath_Join e (DataDirectory (App c)) ''logs'' in
      case createDirIfNotExist e logDir of
        (ev, Some err) \<Rightarrow>
          (ev @ [LogError (''createDirIfNotExist('' @ logDir @ '') failed: '' @ Error err)],
           Inl (ErrorString (''createDirIfNotExist('' @ logDir @ '') failed: '' @ Error err)))
      | (ev, None) \<Rightarrow>
          (let tf = ''2006-01-02-030405'';
               logfile = filepath_Join e logDir (Format tf (time_Now e) @ ''.log'')
           in case os_OpenFile e logfile of
                Inl err \<Rightarrow>
                  (ev @ [OpenFile logfile (Inl err),
                         LogError (''os.OpenFile('' @ logfile @ '') failed: '' @ Error err)],
                   Inl err)
              | Inr f \<Rightarrow> (ev @ [OpenFile logfile (Inr f), AddHook f], Inr f)))"

definition createServer ::
  "env \<Rightarrow> Config \<Rightarrow> string \<Rightarrow> Gateway \<Rightarrow> event list \<times> (error + server)" where
  "createServer e c host gateway =
     (let apiConfig =
            \<lparr>api_EnableCSRF = EnableCSRF (App c),
             api_DisableHeaderCheck = DisableHeaderCheck (App c),
             api_HostWhitelist = hostWhitelist (App c),
             api_Mode = daemonMode (App c),
             api_Build = Build c\<rparr>
      in case api_Create e host apiConfig gateway of
           Inl err \<Rightarrow>
             ([ApiCreate host apiConfig gateway (Inl err),
               LogError (''Failed to start web GUI: '' @ Error err)],
              Inl err)
         | Inr s \<Rightarrow> ([ApiCreate host apiConfig gateway (Inr s)], Inr s))"

subsection \<open>The state of a run\<close>

text \<open>
  \<^verbatim>\<open>Run\<close> is sequential up to the \<^verbatim>\<open>select\<close>: nothing before it reads what another
  goroutine writes. From there on the main goroutine, the worker goroutine that calls
  \<^verbatim>\<open>Serve\<close> and the goroutine of \<^verbatim>\<open>CatchInterrupt\<close>, which closes \<^verbatim>\<open>quit\<close>, run
  interleaved. The state holds the locals of \<^verbatim>\<open>Run\<close>, the place each of the two
  goroutines has reached and the trace so far. The main goroutine stops at the two
  statements that can block, the \<^verbatim>\<open>select\<close> and \<^verbatim>\<open>wg.Wait()\<close>.
\<close>

datatype main_pc = AtSelect | AtShutdown | AtWait | Returned "error option"

datatype worker_pc = NotStarted | Serving | ServeReturned "error option" | AtDone | Finished

record state =
  trace :: "event list"
  pc :: main_pc
  worker :: worker_pc
  errC :: "error list"
  quit :: bool
  wg :: int
  apiServer :: "server option"
  retErr :: "error option"
  logFile :: "os_File option"
  profiling :: bool

text \<open>
  The code from the label \<^verbatim>\<open>earlyShutdown\<close> to the end, and then the deferred
  \<^verbatim>\<open>pprof.StopCPUProfile()\<close> when the \<^verbatim>\<open>defer\<close> statement was reached.
\<close>

definition earlyShutdown :: "env \<Rightarrow> state \<Rightarrow> state" where
  "earlyShutdown e s =
     (let tr = trace s @ [LogInfo ''Goodbye''];
          tr = (case logFile s of
                  None \<Rightarrow> tr
                | Some f \<Rightarrow>
                    (case file_Close e f of
                       Some err \<Rightarrow> tr @ [Close f (Some err), Println ''Failed to close log file'']
                     | None \<Rightarrow> tr @ [Close f None]));
          tr = (if profiling s then tr @ [StopCPUProfile] else tr)
      in s\<lparr>trace := tr, pc := Returned (retErr s)\<rparr>)"

text \<open>A \<^verbatim>\<open>return err\<close> of the sequential part: no goroutine of the server exists.\<close>

definition returned :: "event list \<Rightarrow> error \<Rightarrow> os_File option \<Rightarrow> state" where
  "returned tr err lf =
     \<lparr>trace = tr, pc = Returned (Some err), worker = NotStarted, errC = [], quit = False,
      wg = 0, apiServer = None, retErr = None, logFile = lf, profiling = False\<rparr>"

subsection \<open>\<^verbatim>\<open>Run\<close>, up to the \<^verbatim>\<open>select\<close>\<close>

text \<open>
  The sequential part of \<^verbatim>\<open>Run\<close>, in four pieces that each give their events and their
  outcome. First the log level and the colours: an unknown level is wrapped by
  \<^verbatim>\<open>fmt.Errorf("invalid -log-level: %v", err)\<close>, logged and returned.
\<close>

definition Run_level :: "env \<Rightarrow> Config \<Rightarrow> event list \<times> (error + level)" where
  "Run_level e c =
     (case logging_LevelFromString e (LogLevel (App c)) of
        Inl err \<Rightarrow>
          (let err' = ErrorString (''invalid -log-level: '' @ Error err)
           in ([LevelFromString (LogLevel (App c)) (Inl err), LogError (Error err')], Inl err'))
      | Inr logLevel \<Rightarrow>
          ([LevelFromString (LogLevel (App c)) (Inr logLevel), SetLevel logLevel,
            if ColorLog (App c) then EnableColors else DisableColors],
           Inr logLevel))"

text \<open>The log file, when \<^verbatim>\<open>LogToFile\<close> is set: a failure is logged and returned.\<close>

definition Run_logFile :: "env \<Rightarrow> Config \<Rightarrow> event list \<times> (error + os_File option)" where
  "Run_logFile e c =
     (if LogToFile (App c)
      then (case initLogFile e c of
              (ev, Inl err) \<Rightarrow> (ev @ [LogError (Error err)], Inl err)
            | (ev, Inr f) \<Rightarrow> (ev, Inr (Some f)))
      else ([], Inr None))"

text \<open>
  CPU profiling, when \<^verbatim>\<open>ProfileCPU\<close> is set: a failure of \<^verbatim>\<open>os.Create\<close> or of
  \<^verbatim>\<open>pprof.StartCPUProfile\<close> is logged and returned by \<^verbatim>\<open>return err\<close>.
\<close>

definition Run_profile :: "env \<Rightarrow> Config \<Rightarrow> event list \<times> error option" where
  "Run_profile e c =
     (if ProfileCPU (App c)
      then (case os_Create e (ProfileCPUFile (App c)) of
              Inl err \<Rightarrow>
                ([Create (ProfileCPUFile (App c)) (Inl err), LogError (Error err)], Some err)
            | Inr f \<Rightarrow>
                (case pprof_StartCPUProfile e f of
                   Some err \<Rightarrow>
                     ([Create (ProfileCPUFile (App c)) (Inr f), StartCPUProfile f (Some err),
                       LogError (Error err)], Some err)
                 | None \<Rightarrow>
                     ([Create (ProfileCPUFile (App c)) (Inr f), StartCPUProfile f None], None)))
      else ([], None))"

text \<open>
  The goroutines started before the server is built. What the profiling listener does,
  and the error it may log, is not followed.
\<close>

definition Run_goroutines :: "Config \<Rightarrow> event list" where
  "Run_goroutines c =
     (if HTTPProf (App c) then [GoListenAndServe (HTTPProfHost (App c))] else [])
     @ [GoCatchInterrupt, GoCatchDebug]"

definition Run_start :: "env \<Rightarrow> Config \<Rightarrow> state" where
  "Run_start e c =
     (case Run_level e c of
        (ev1, Inl err) \<Rightarrow> returned ev1 err None
      | (ev1, Inr logLevel) \<Rightarrow>
          (case Run_logFile e c of
             (ev2, Inl err) \<Rightarrow> returned (ev1 @ ev2) err None
           | (ev2, Inr lf) \<Rightarrow>
               (let host = WebInterfaceAddr (App c) @ '':''
                             @ sprint_d (WebInterfacePort (App c))
                in case Run_profile e c of
                     (ev3, Some err) \<Rightarrow> returned (ev1 @ ev2 @ ev3) err lf
                   | (ev3, None) \<Rightarrow>
                       (let tr = ev1 @ ev2 @ ev3 @ Run_goroutines c
                        in case createServer e c host
                                  (NewGateway (NewDevice (daemonMode (App c)))) of
                             (ev4, Inl err) \<Rightarrow>
                               earlyShutdown e
                                 \<lparr>trace = tr @ ev4 @ [LogError (Error err)], pc = AtWait,
                                  worker = NotStarted, errC = [], quit = False, wg = 0,
                                  apiServer = None, retErr = Some err, logFile = lf,
                                  profiling = ProfileCPU (App c)\<rparr>
                           | (ev4, Inr srv) \<Rightarrow>
                               \<lparr>trace = tr @ ev4 @ [WgAdd, GoServe srv], pc = AtSelect,
                                worker = Serving, errC = [], quit = False, wg = 1,
                                apiServer = Some srv, retErr = None, logFile = lf,
                                profiling = ProfileCPU (App c)\<rparr>))))"

subsection \<open>\<^verbatim>\<open>Run\<close>, from the \<^verbatim>\<open>select\<close> on\<close>

text \<open>
  A schedule names, step by step, who moves: the main goroutine, the worker, or the
  interrupt. A goroutine that is blocked, or has finished, leaves the state as it is. When
  both cases of the \<^verbatim>\<open>select\<close> can proceed Go chooses one of them at random: the
  schedule carries the choice, which is not looked at when only one case can proceed.
\<close>

datatype select_case = CaseQuit | CaseErrC

datatype sched = StepMain select_case | StepWorker | Interrupt

text \<open>
  The main goroutine: the \<^verbatim>\<open>select\<close> (blocked while \<^verbatim>\<open>quit\<close> is open and \<^verbatim>\<open>errC\<close>
  is empty); the shutdown of the server; \<^verbatim>\<open>wg.Wait()\<close> (blocked while the counter is not
  zero), followed by the code at \<^verbatim>\<open>earlyShutdown\<close>.
\<close>

definition step_main :: "env \<Rightarrow> select_case \<Rightarrow> state \<Rightarrow> state" where
  "step_main e pick s =
     (case pc s of
        AtSelect \<Rightarrow>
          (case errC s of
             [] \<Rightarrow>
               if quit s
               then s\<lparr>trace := trace s @ [RecvQuit, LogInfo ''Shutting down...''],
                       pc := AtShutdown\<rparr>
               else s
           | err # rest \<Rightarrow>
               if quit s \<and> pick = CaseQuit
               then s\<lparr>trace := trace s @ [RecvQuit, LogInfo ''Shutting down...''],
                       pc := AtShutdown\<rparr>
               else s\<lparr>trace := trace s @ [RecvErrC err, LogError (Error err),
                                           LogInfo ''Shutting down...''],
                       errC := rest, retErr := Some err, pc := AtShutdown\<rparr>)
      | AtShutdown \<Rightarrow>
          (case apiServer s of
             Some srv \<Rightarrow>
               s\<lparr>trace := trace s @ [LogInfo ''Closing api server'', Shutdown srv,
                                     LogInfo ''Waiting for goroutines to finish''],
                 pc := AtWait\<rparr>
           | None \<Rightarrow>
               s\<lparr>trace := trace s @ [LogInfo ''Waiting for goroutines to finish''],
                 pc := AtWait\<rparr>)
      | AtWait \<Rightarrow>
          if wg s = 0 then earlyShutdown e (s\<lparr>trace := trace s @ [WgWait]\<rparr>) else s
      | Returned r \<Rightarrow> s)"

text \<open>
  The worker: \<^verbatim>\<open>Serve\<close> returns; an error is logged and sent on \<^verbatim>\<open>errC\<close>, whose buffer
  holds ten errors; the deferred \<^verbatim>\<open>wg.Done()\<close> runs. When \<^verbatim>\<open>Serve\<close> returns is up to the
  schedule: the server is not part of the file.
\<close>

definition step_worker :: "env \<Rightarrow> state \<Rightarrow> state" where
  "step_worker e s =
     (case worker s of
        NotStarted \<Rightarrow> s
      | Serving \<Rightarrow>
          (case apiServer s of
             Some srv \<Rightarrow>
               s\<lparr>trace := trace s @ [ServeReturn (Serve e srv)],
                 worker := ServeReturned (Serve e srv)\<rparr>
           | None \<Rightarrow> s)
      | ServeReturned r \<Rightarrow>
          (case r of
             Some err \<Rightarrow>
               if length (errC s) < 10
               then s\<lparr>trace := trace s @ [LogError (Error err), SendErrC err],
                       errC := errC s @ [err], worker := AtDone\<rparr>
               else s
           | None \<Rightarrow> s\<lparr>worker := AtDone\<rparr>)
      | AtDone \<Rightarrow> s\<lparr>trace := trace s @ [WgDone], wg := wg s - 1, worker := Finished\<rparr>
      | Finished \<Rightarrow> s)"

text \<open>\<^verbatim>\<open>CatchInterrupt\<close> closes \<^verbatim>\<open>quit\<close> at the first interrupt signal.\<close>

definition step_interrupt :: "state \<Rightarrow> state" where
  "step_interrupt s =
     (if quit s then s else s\<lparr>trace := trace s @ [CloseQuit], quit := True\<rparr>)"

text \<open>A run is observed up to the return of \<^verbatim>\<open>Run\<close>: nothing moves after it.\<close>

definition step :: "env \<Rightarrow> sched \<Rightarrow> state \<Rightarrow> state" where
  "step e a s =
     (case pc s of
        Returned r \<Rightarrow> s
      | _ \<Rightarrow>
          (case a of
             StepMain pick \<Rightarrow> step_main e pick s
           | StepWorker \<Rightarrow> step_worker e s
           | Interrupt \<Rightarrow> step_interrupt s))"

fun exec :: "env \<Rightarrow> sched list \<Rightarrow> state \<Rightarrow> state" where
  "exec e [] s = s"
| "exec e (a # as) s = exec e as (step e a s)"

definition Run :: "env \<Rightarrow> Config \<Rightarrow> sched list \<Rightarrow> state" where
  "Run e c sch = exec e sch (Run_start e c)"

text \<open>
  A schedule that lets a run finish once the \<^verbatim>\<open>select\<close> can proceed: the worker
  runs to its end, then the main goroutine does.
\<close>

definition finish :: "sched list" where
  "finish = [StepWorker, StepWorker, StepWorker,
             StepMain CaseQuit, StepMain CaseQuit, StepMain CaseQuit]"

subsection \<open>Reading a trace\<close>

fun is_Shutdown :: "event \<Rightarrow> bool" where
  "is_Shutdown (Shutdown srv) = True"
| "is_Shutdown _ = False"

fun is_Close :: "os_File \<Rightarrow> event \<Rightarrow> bool" where
  "is_Close f (Close g r) = (g = f)"
| "is_Close f _ = False"

fun is_ApiCreate :: "event \<Rightarrow> bool" where
  "is_ApiCreate (ApiCreate host cfg gw r) = True"
| "is_ApiCreate _ = False"

fun created :: "server \<Rightarrow> event \<Rightarrow> bool" where
  "created srv (ApiCreate host cfg gw r) = (r = Inr srv)"
| "created srv _ = False"

text \<open>How often an event of a kind occurs in a trace.\<close>

definition calls :: "(event \<Rightarrow> bool) \<Rightarrow> event list \<Rightarrow> nat" where
  "calls P tr = length (filter P tr)"

text \<open>Every event of kind \<open>Q\<close> in the trace has an event of kind \<open>P\<close> before it.\<close>

fun precedes :: "(event \<Rightarrow> bool) \<Rightarrow> (event \<Rightarrow> bool) \<Rightarrow> event list \<Rightarrow> bool" where
  "precedes P Q [] = True"
| "precedes P Q (x # xs) = (\<not> Q x \<and> (P x \<or> precedes P Q xs))"

text \<open>
  The events that the code from the \<^verbatim>\<open>select\<close> on can add to a trace, and the events
  of each piece of the sequential part.
\<close>

fun late_event :: "event \<Rightarrow> bool" where
  "late_event (ServeReturn r) = True"
| "late_event (SendErrC err) = True"
| "late_event WgDone = True"
| "late_event CloseQuit = True"
| "late_event RecvQuit = True"
| "late_event (RecvErrC err) = True"
| "late_event (Shutdown srv) = True"
| "late_event WgWait = True"
| "late_event (Close f r) = True"
| "late_event (Println msg) = True"
| "late_event (LogError msg) = True"
| "late_event (LogInfo msg) = True"
| "late_event StopCPUProfile = True"
| "late_event _ = False"

fun in_level :: "event \<Rightarrow> bool" where
  "in_level (LevelFromString s r) = True"
| "in_level (SetLevel l) = True"
| "in_level EnableColors = True"
| "in_level DisableColors = True"
| "in_level (LogError msg) = True"
| "in_level _ = False"

fun in_logFile :: "event \<Rightarrow> bool" where
  "in_logFile (Stat p r) = True"
| "in_logFile (Mkdir p r) = True"
| "in_logFile (OpenFile p r) = True"
| "in_logFile (AddHook f) = True"
| "in_logFile (LogError msg) = True"
| "in_logFile _ = False"

fun in_profile :: "event \<Rightarrow> bool" where
  "in_profile (Create p r) = True"
| "in_profile (StartCPUProfile f r) = True"
| "in_profile (LogError msg) = True"
| "in_profile _ = False"

fun in_server :: "event \<Rightarrow> bool" where
  "in_server (GoListenAndServe h) = True"
| "in_server GoCatchInterrupt = True"
| "in_server GoCatchDebug = True"
| "in_server (ApiCreate h a g r) = True"
| "in_server (LogError msg) = True"
| "in_server _ = False"

subsection \<open>An example environment and configuration\<close>

text \<open>
  A machine on which the level \<^verbatim>\<open>info\<close> is known, the directory \<^verbatim>\<open>/data/logs\<close> exists,
  \<^verbatim>\<open>/new/logs\<close> does not and \<^verbatim>\<open>/denied\<close> cannot be searched, files under \<^verbatim>\<open>/ro\<close>
  cannot be created, the profiler refuses to write to \<^verbatim>\<open>/tmp/busy.prof\<close>, port 80 cannot
  be bound and the clock reads 15:04:05 on 4 July 2019. The serve loop, when it returns,
  returns an error.
\<close>

definition env_ex :: env where
  "env_ex =
     \<lparr>logging_LevelFromString =
        (\<lambda>s. if s = ''info'' then Inr 4
             else Inl (ErrorString ''could not convert string to log level'')),
      filepath_Join = (\<lambda>a b. a @ ''/'' @ b),
      os_Stat =
        (\<lambda>p. if p = ''/new/logs'' then Some (PathError ''stat'' p ENOENT)
             else if p = ''/denied/logs'' then Some (PathError ''stat'' p EACCES)
             else None),
      os_Mkdir = (\<lambda>p. None),
      os_OpenFile = (\<lambda>p. Inr (File p)),
      time_Now = \<lparr>year = 2019, month = 7, day = 4, hour = 15, minute = 4, second = 5\<rparr>,
      os_Create =
        (\<lambda>p. if take 4 p = ''/ro/'' then Inl (PathError ''open'' p EACCES) else Inr (File p)),
      pprof_StartCPUProfile =
        (\<lambda>f. if f = File ''/tmp/busy.prof''
             then Some (ErrorString ''cpu profiling already in use'') else None),
      api_Create =
        (\<lambda>h c g. if h = ''127.0.0.1:80'' then Inl (ErrorString ''device not found'')
                 else Inr (Server h)),
      Serve = (\<lambda>s. Some (ErrorString ''accept failed'')),
      file_Close = (\<lambda>f. None)\<rparr>"

definition app_ex :: AppConfig where
  "app_ex =
     \<lparr>LogLevel = ''info'', ColorLog = False, LogToFile = True, DataDirectory = ''/data'',
      WebInterfaceAddr = ''127.0.0.1'', WebInterfacePort = 9510, ProfileCPU = False,
      ProfileCPUFile = ''/ro/cpu.prof'', HTTPProf = False, HTTPProfHost = ''localhost:6060'',
      EnableCSRF = True, DisableHeaderCheck = False, hostWhitelist = [],
      daemonMode = DeviceTypeUSB\<rparr>"

definition cfg_ex :: Config where
  "cfg_ex = \<lparr>App = app_ex, Build = ''v1''\<rparr>"

text \<open>The same configuration with a log level that the parser does not know.\<close>

definition cfg_level :: Config where
  "cfg_level = \<lparr>App = app_ex\<lparr>LogLevel := ''loud''\<rparr>, Build = ''v1''\<rparr>"

text \<open>With CPU profiling to a file that cannot be created.\<close>

definition cfg_profile :: Config where
  "cfg_profile = \<lparr>App = app_ex\<lparr>ProfileCPU := True\<rparr>, Build = ''v1''\<rparr>"

text \<open>With CPU profiling to a file that can be created and that the profiler refuses.\<close>

definition cfg_profiler :: Config where
  "cfg_profiler =
     \<lparr>App = app_ex\<lparr>ProfileCPU := True, ProfileCPUFile := ''/tmp/busy.prof''\<rparr>, Build = ''v1''\<rparr>"

text \<open>With a port on which the server cannot be built.\<close>

definition cfg_port :: Config where
  "cfg_port = \<lparr>App = app_ex\<lparr>WebInterfacePort := 80\<rparr>, Build = ''v1''\<rparr>"

section \<open>Lemmas\<close>

subsection \<open>Schedules and traces\<close>

lemma exec_Returned: "pc s = Returned r \<Longrightarrow> exec e sch s = s"
  by (induction sch) (simp_all add: step_def)

lemma exec_append: "exec e (xs @ ys) s = exec e ys (exec e xs s)"
  by (induction xs arbitrary: s) simp_all

lemma precedes_append:
  "precedes P Q (xs @ ys) = (precedes P Q xs \<and> ((\<exists>x\<in>set xs. P x) \<or> precedes P Q ys))"
  by (induction xs) auto

lemma level_events: "x \<in> set (fst (Run_level e c)) \<Longrightarrow> in_level x"
  by (auto simp: Run_level_def Let_def split: sum.splits if_splits)

lemma createDir_events: "x \<in> set (fst (createDirIfNotExist e d)) \<Longrightarrow> in_logFile x"
  by (auto simp: createDirIfNotExist_def Let_def split: if_splits)

lemma initLogFile_events: "x \<in> set (fst (initLogFile e c)) \<Longrightarrow> in_logFile x"
  using createDir_events [of _ e "filepath_Join e (DataDirectory (App c)) ''logs''"]
  by (auto simp: initLogFile_def Let_def split: sum.splits option.splits prod.splits)

lemma logFile_events: "x \<in> set (fst (Run_logFile e c)) \<Longrightarrow> in_logFile x"
  using initLogFile_events [of _ e c]
  by (auto simp: Run_logFile_def split: sum.splits prod.splits if_splits)

lemma profile_events: "x \<in> set (fst (Run_profile e c)) \<Longrightarrow> in_profile x"
  by (auto simp: Run_profile_def split: sum.splits option.splits if_splits)

lemma goroutines_events: "x \<in> set (Run_goroutines c) \<Longrightarrow> in_server x"
  by (auto simp: Run_goroutines_def split: if_splits)

lemma createServer_events: "x \<in> set (fst (createServer e c h g)) \<Longrightarrow> in_server x"
  by (auto simp: createServer_def Let_def split: sum.splits)


lemma earlyShutdown_fields [simp]:
  "pc (earlyShutdown e s) = Returned (retErr s)"
  "worker (earlyShutdown e s) = worker s"
  "errC (earlyShutdown e s) = errC s"
  "quit (earlyShutdown e s) = quit s"
  "wg (earlyShutdown e s) = wg s"
  "apiServer (earlyShutdown e s) = apiServer s"
  "retErr (earlyShutdown e s) = retErr s"
  "logFile (earlyShutdown e s) = logFile s"
  "profiling (earlyShutdown e s) = profiling s"
  by (simp_all add: earlyShutdown_def Let_def)

lemma earlyShutdown_trace:
  "\<exists>new. trace (earlyShutdown e s) = trace s @ new \<and> list_all late_event new"
  by (simp add: earlyShutdown_def Let_def split: option.splits)

lemma step_trace: "\<exists>new. trace (step e a s) = trace s @ new \<and> list_all late_event new"
proof (cases a)
  case (StepMain pick)
  show ?thesis
    using earlyShutdown_trace [of e "s\<lparr>trace := trace s @ [WgWait]\<rparr>"]
    by (auto simp: StepMain step_def step_main_def
             split: main_pc.splits list.splits option.splits)
next
  case StepWorker
  then show ?thesis
    by (auto simp: step_def step_worker_def split: main_pc.splits worker_pc.splits option.splits)
next
  case Interrupt
  then show ?thesis
    by (auto simp: step_def step_interrupt_def split: main_pc.splits)
qed

lemma exec_trace: "\<exists>new. trace (exec e sch s) = trace s @ new \<and> list_all late_event new"
proof (induction sch arbitrary: s)
  case Nil
  show ?case by simp
next
  case (Cons a sch)
  obtain n1 where n1: "trace (step e a s) = trace s @ n1" "list_all late_event n1"
    using step_trace by blast
  obtain n2 where n2: "trace (exec e sch (step e a s)) = trace (step e a s) @ n2"
    "list_all late_event n2"
    using Cons.IH by blast
  show ?case using n1 n2 by simp
qed

lemma exec_early:
  "\<not> late_event x \<Longrightarrow> (x \<in> set (trace (exec e sch s))) = (x \<in> set (trace s))"
  using exec_trace [of e sch s] by (auto simp: list_all_iff)

lemma exec_mono: "x \<in> set (trace s) \<Longrightarrow> x \<in> set (trace (exec e sch s))"
  using exec_trace [of e sch s] by auto

lemma profile_failed:
  "Create p (Inl err) \<in> set (fst (Run_profile e c))
     \<or> StartCPUProfile f (Some err) \<in> set (fst (Run_profile e c))
   \<Longrightarrow> snd (Run_profile e c) = Some err \<and> LogError (Error err) \<in> set (fst (Run_profile e c))"
  by (auto simp: Run_profile_def split: sum.splits option.splits if_splits)


lemma createServer_result:
  "ApiCreate h a g r \<in> set (fst (createServer e c h' g')) \<Longrightarrow> snd (createServer e c h' g') = r"
  by (auto simp: createServer_def Let_def split: sum.splits)

lemma createServer_created:
  "snd (createServer e c h g) = Inr srv \<Longrightarrow> \<exists>x\<in>set (fst (createServer e c h g)). created srv x"
  by (auto simp: createServer_def Let_def split: sum.splits)

lemma Run_start_cases [case_names level logFile profile noserver server]:
  obtains
    (level) err where
      "snd (Run_level e c) = Inl err"
      "Run_start e c = returned (fst (Run_level e c)) err None"
  | (logFile) err where
      "snd (Run_logFile e c) = Inl err"
      "Run_start e c = returned (fst (Run_level e c) @ fst (Run_logFile e c)) err None"
  | (profile) err lf where
      "snd (Run_logFile e c) = Inr lf"
      "snd (Run_profile e c) = Some err"
      "Run_start e c
         = returned (fst (Run_level e c) @ fst (Run_logFile e c) @ fst (Run_profile e c)) err lf"
  | (noserver) err lf ev where
      "snd (Run_logFile e c) = Inr lf"
      "snd (Run_profile e c) = None"
      "\<forall>x\<in>set ev. in_server x"
      "\<forall>h a g r. ApiCreate h a g r \<in> set ev \<longrightarrow> r = Inl err"
      "Run_start e c
         = earlyShutdown e
             \<lparr>trace = fst (Run_level e c) @ fst (Run_logFile e c) @ fst (Run_profile e c)
                       @ ev @ [LogError (Error err)],
              pc = AtWait, worker = NotStarted, errC = [], quit = False, wg = 0,
              apiServer = None, retErr = Some err, logFile = lf,
              profiling = ProfileCPU (App c)\<rparr>"
  | (server) srv lf ev where
      "snd (Run_logFile e c) = Inr lf"
      "snd (Run_profile e c) = None"
      "\<forall>x\<in>set ev. in_server x"
      "\<forall>h a g r. ApiCreate h a g r \<in> set ev \<longrightarrow> r = Inr srv"
      "\<exists>x\<in>set ev. created srv x"
      "Run_start e c
         = \<lparr>trace = fst (Run_level e c) @ fst (Run_logFile e c) @ fst (Run_profile e c)
                     @ ev @ [WgAdd, GoServe srv],
            pc = AtSelect, worker = Serving, errC = [], quit = False, wg = 1,
            apiServer = Some srv, retErr = None, logFile = lf,
            profiling = ProfileCPU (App c)\<rparr>"
proof -
  define h where "h = WebInterfaceAddr (App c) @ '':'' @ sprint_d (WebInterfacePort (App c))"
  define g where "g = NewGateway (NewDevice (daemonMode (App c)))"
  define ev where "ev = Run_goroutines c @ fst (createServer e c h g)"
  have ev: "\<forall>x\<in>set ev. in_server x"
    using goroutines_events [of _ c] createServer_events [of _ e c h g] by (auto simp: ev_def)
  have res: "\<forall>h' a' g' r. ApiCreate h' a' g' r \<in> set ev \<longrightarrow> r = snd (createServer e c h g)"
    using createServer_result [of _ _ _ _ e c h g]
    by (auto simp: ev_def Run_goroutines_def split: if_splits)
  show thesis
  proof (cases "snd (Run_level e c)")
    case (Inl err)
    then have "Run_start e c = returned (fst (Run_level e c)) err None"
      by (simp add: Run_start_def case_prod_unfold)
    with Inl show thesis by (rule level)
  next
    case l: (Inr lvl)
    show thesis
    proof (cases "snd (Run_logFile e c)")
      case (Inl err)
      then have "Run_start e c = returned (fst (Run_level e c) @ fst (Run_logFile e c)) err None"
        using l by (simp add: Run_start_def case_prod_unfold)
      with Inl show thesis by (rule logFile)
    next
      case f: (Inr lf)
      show thesis
      proof (cases "snd (Run_profile e c)")
        case (Some err)
        then have "Run_start e c
           = returned (fst (Run_level e c) @ fst (Run_logFile e c) @ fst (Run_profile e c)) err lf"
          using l f by (simp add: Run_start_def Let_def case_prod_unfold)
        with f Some show thesis by (rule profile)
      next
        case p: None
        show thesis
        proof (cases "snd (createServer e c h g)")
          case (Inl err)
          have "Run_start e c
             = earlyShutdown e
                 \<lparr>trace = fst (Run_level e c) @ fst (Run_logFile e c) @ fst (Run_profile e c)
                           @ ev @ [LogError (Error err)],
                  pc = AtWait, worker = NotStarted, errC = [], quit = False, wg = 0,
                  apiServer = None, retErr = Some err, logFile = lf,
                  profiling = ProfileCPU (App c)\<rparr>"
            using l f p Inl [unfolded h_def g_def]
            by (simp add: Run_start_def Let_def case_prod_unfold ev_def h_def g_def)
          with f p ev res [unfolded Inl] show thesis by (rule noserver)
        next
          case (Inr srv)
          have "\<exists>x\<in>set ev. created srv x"
            using createServer_created [OF Inr] by (auto simp: ev_def)
          moreover have "Run_start e c
             = \<lparr>trace = fst (Run_level e c) @ fst (Run_logFile e c) @ fst (Run_profile e c)
                         @ ev @ [WgAdd, GoServe srv],
                pc = AtSelect, worker = Serving, errC = [], quit = False, wg = 1,
                apiServer = Some srv, retErr = None, logFile = lf,
                profiling = ProfileCPU (App c)\<rparr>"
            using l f p Inr [unfolded h_def g_def]
            by (simp add: Run_start_def Let_def case_prod_unfold ev_def h_def g_def)
          ultimately show thesis using f p ev res [unfolded Inr] by (rule_tac server) 
        qed
      qed
    qed
  qed
qed

lemma not_ApiCreate: "in_level x \<or> in_logFile x \<or> in_profile x \<Longrightarrow> \<not> is_ApiCreate x"
  by (cases x) simp_all

lemma not_Shutdown: "in_level x \<or> in_logFile x \<or> in_profile x \<or> in_server x \<Longrightarrow> \<not> is_Shutdown x"
  by (cases x) simp_all

lemma not_Close: "in_level x \<or> in_logFile x \<or> in_profile x \<or> in_server x \<Longrightarrow> \<not> is_Close f x"
  by (cases x) simp_all

lemma earlyShutdown_Shutdown:
  "calls is_Shutdown (trace (earlyShutdown e s)) = calls is_Shutdown (trace s)"
  by (simp add: earlyShutdown_def Let_def calls_def split: option.splits)

lemma earlyShutdown_Close:
  "calls (is_Close f) (trace (earlyShutdown e s))
     = calls (is_Close f) (trace s) + (if logFile s = Some f then 1 else 0)"
  by (simp add: earlyShutdown_def Let_def calls_def split: option.splits)

lemma logFile_opened:
  "OpenFile p (Inr f) \<in> set (fst (Run_logFile e c)) \<Longrightarrow> snd (Run_logFile e c) = Inr (Some f)"
  by (auto simp: Run_logFile_def initLogFile_def createDirIfNotExist_def Let_def
           split: if_splits sum.splits option.splits prod.splits)

lemma Run_returned: "pc (Run_start e c) = Returned r \<Longrightarrow> Run e c sch = Run_start e c"
  by (simp add: Run_def exec_Returned)

lemma calls_0: "(calls P tr = 0) = (\<forall>x\<in>set tr. \<not> P x)"
  by (simp add: calls_def filter_empty_conv)

lemma calls_append: "calls P (xs @ ys) = calls P xs + calls P ys"
  by (simp add: calls_def)

lemma calls_Cons: "calls P (x # xs) = (if P x then 1 else 0) + calls P xs"
  by (simp add: calls_def)

lemma calls_Nil: "calls P [] = 0"
  by (simp add: calls_def)

subsection \<open>The runs of the example\<close>

lemma Format_tf:
  "Format ''2006-01-02-030405'' t
     = appendInt (year t) 4 @ ''-'' @ appendInt (int (month t)) 2 @ ''-''
       @ appendInt (int (day t)) 2 @ ''-'' @ appendInt (int (hour12 t)) 2
       @ appendInt (int (minute t)) 2 @ appendInt (int (second t)) 2"
  by (simp add: Format.simps)

lemma dec_ex:
  "dec 4 = ''4''" "dec 5 = ''5''" "dec 7 = ''7''" "dec 3 = ''3''" "dec 80 = ''80''"
  "dec 2019 = ''2019''" "dec 9510 = ''9510''"
  by (simp_all add: dec.simps digit_def)

lemma now_ex: "Format ''2006-01-02-030405'' (time_Now env_ex) = ''2019-07-04-030405''"
  by (simp add: Format_tf env_ex_def appendInt_def hour12_def dec_ex)

lemma level_ex:
  "LogLevel (App c) = ''info'' \<Longrightarrow> \<not> ColorLog (App c) \<Longrightarrow>
   Run_level env_ex c = ([LevelFromString ''info'' (Inr 4), SetLevel 4, DisableColors], Inr 4)"
  by (simp add: Run_level_def env_ex_def)

lemma initLogFile_ex:
  "DataDirectory (App c) = ''/data'' \<Longrightarrow>
   initLogFile env_ex c
     = ([Stat ''/data/logs'' None,
         OpenFile ''/data/logs/2019-07-04-030405.log''
           (Inr (File ''/data/logs/2019-07-04-030405.log'')),
         AddHook (File ''/data/logs/2019-07-04-030405.log'')],
        Inr (File ''/data/logs/2019-07-04-030405.log''))"
proof -
  have j: "filepath_Join env_ex a b = a @ ''/'' @ b" for a b
    by (simp add: env_ex_def)
  have st: "os_Stat env_ex ''/data/logs'' = None"
    by (simp add: env_ex_def)
  have op: "os_OpenFile env_ex p = Inr (File p)" for p
    by (simp add: env_ex_def)
  assume "DataDirectory (App c) = ''/data''"
  then show ?thesis
    by (simp add: initLogFile_def createDirIfNotExist_def Let_def now_ex j st op)
qed

lemma logFile_ex:
  "LogToFile (App c) \<Longrightarrow> DataDirectory (App c) = ''/data'' \<Longrightarrow>
   Run_logFile env_ex c
     = ([Stat ''/data/logs'' None,
         OpenFile ''/data/logs/2019-07-04-030405.log''
           (Inr (File ''/data/logs/2019-07-04-030405.log'')),
         AddHook (File ''/data/logs/2019-07-04-030405.log'')],
        Inr (Some (File ''/data/logs/2019-07-04-030405.log'')))"
  by (simp add: Run_logFile_def initLogFile_ex)

lemma start_level:
  "Run_start env_ex cfg_level
     = returned
         [LevelFromString ''loud'' (Inl (ErrorString ''could not convert string to log level'')),
          LogError ''invalid -log-level: could not convert string to log level'']
         (ErrorString ''invalid -log-level: could not convert string to log level'') None"
  by (simp add: Run_start_def Run_level_def cfg_level_def app_ex_def env_ex_def)

lemma start_profile:
  "Run_start env_ex cfg_profile
     = returned
         [LevelFromString ''info'' (Inr 4), SetLevel 4, DisableColors,
          Stat ''/data/logs'' None,
          OpenFile ''/data/logs/2019-07-04-030405.log''
            (Inr (File ''/data/logs/2019-07-04-030405.log'')),
          AddHook (File ''/data/logs/2019-07-04-030405.log''),
          Create ''/ro/cpu.prof'' (Inl (PathError ''open'' ''/ro/cpu.prof'' EACCES)),
          LogError ''open /ro/cpu.prof: permission denied'']
         (PathError ''open'' ''/ro/cpu.prof'' EACCES)
         (Some (File ''/data/logs/2019-07-04-030405.log''))"
proof -
  have "Run_profile env_ex cfg_profile
        = ([Create ''/ro/cpu.prof'' (Inl (PathError ''open'' ''/ro/cpu.prof'' EACCES)),
            LogError ''open /ro/cpu.prof: permission denied''],
           Some (PathError ''open'' ''/ro/cpu.prof'' EACCES))"
    by (simp add: Run_profile_def cfg_profile_def app_ex_def env_ex_def)
  then show ?thesis
    by (simp add: Run_start_def level_ex logFile_ex cfg_profile_def app_ex_def)
qed

lemma start_profiler:
  "Run_start env_ex cfg_profiler
     = returned
         [LevelFromString ''info'' (Inr 4), SetLevel 4, DisableColors,
          Stat ''/data/logs'' None,
          OpenFile ''/data/logs/2019-07-04-030405.log''
            (Inr (File ''/data/logs/2019-07-04-030405.log'')),
          AddHook (File ''/data/logs/2019-07-04-030405.log''),
          Create ''/tmp/busy.prof'' (Inr (File ''/tmp/busy.prof'')),
          StartCPUProfile (File ''/tmp/busy.prof'')
            (Some (ErrorString ''cpu profiling already in use'')),
          LogError ''cpu profiling already in use'']
         (ErrorString ''cpu profiling already in use'')
         (Some (File ''/data/logs/2019-07-04-030405.log''))"
proof -
  have "Run_profile env_ex cfg_profiler
        = ([Create ''/tmp/busy.prof'' (Inr (File ''/tmp/busy.prof'')),
            StartCPUProfile (File ''/tmp/busy.prof'')
              (Some (ErrorString ''cpu profiling already in use'')),
            LogError ''cpu profiling already in use''],
           Some (ErrorString ''cpu profiling already in use''))"
    by (simp add: Run_profile_def cfg_profiler_def app_ex_def env_ex_def)
  then show ?thesis
    by (simp add: Run_start_def level_ex logFile_ex cfg_profiler_def app_ex_def)
qed

lemma start_port:
  "Run_start env_ex cfg_port
     = \<lparr>trace =
          [LevelFromString ''info'' (Inr 4), SetLevel 4, DisableColors,
           Stat ''/data/logs'' None,
           OpenFile ''/data/logs/2019-07-04-030405.log''
             (Inr (File ''/data/logs/2019-07-04-030405.log'')),
           AddHook (File ''/data/logs/2019-07-04-030405.log''),
           GoCatchInterrupt, GoCatchDebug,
           ApiCreate ''127.0.0.1:80''
             \<lparr>api_EnableCSRF = True, api_DisableHeaderCheck = False, api_HostWhitelist = [],
              api_Mode = DeviceTypeUSB, api_Build = ''v1''\<rparr>
             (NewGateway (NewDevice DeviceTypeUSB)) (Inl (ErrorString ''device not found'')),
           LogError ''Failed to start web GUI: device not found'',
           LogError ''device not found'', LogInfo ''Goodbye'',
           Close (File ''/data/logs/2019-07-04-030405.log'') None],
        pc = Returned (Some (ErrorString ''device not found'')), worker = NotStarted,
        errC = [], quit = False, wg = 0, apiServer = None,
        retErr = Some (ErrorString ''device not found''),
        logFile = Some (File ''/data/logs/2019-07-04-030405.log''), profiling = False\<rparr>"
proof -
  have p: "Run_profile env_ex cfg_port = ([], None)"
    by (simp add: Run_profile_def cfg_port_def app_ex_def)
  have g: "Run_goroutines cfg_port = [GoCatchInterrupt, GoCatchDebug]"
    by (simp add: Run_goroutines_def cfg_port_def app_ex_def)
  have h: "sprint_d (WebInterfacePort (App cfg_port)) = ''80''"
    by (simp add: sprint_d_def cfg_port_def app_ex_def dec_ex)
  have s: "createServer env_ex cfg_port ''127.0.0.1:80'' (NewGateway (NewDevice DeviceTypeUSB))
        = ([ApiCreate ''127.0.0.1:80''
             \<lparr>api_EnableCSRF = True, api_DisableHeaderCheck = False, api_HostWhitelist = [],
              api_Mode = DeviceTypeUSB, api_Build = ''v1''\<rparr>
             (NewGateway (NewDevice DeviceTypeUSB)) (Inl (ErrorString ''device not found'')),
            LogError ''Failed to start web GUI: device not found''],
           Inl (ErrorString ''device not found''))"
    by (simp add: createServer_def cfg_port_def app_ex_def env_ex_def)
  have l: "Run_level env_ex cfg_port
           = ([LevelFromString ''info'' (Inr 4), SetLevel 4, DisableColors], Inr 4)"
    by (rule level_ex) (simp_all add: cfg_port_def app_ex_def)
  have f: "Run_logFile env_ex cfg_port
     = ([Stat ''/data/logs'' None,
         OpenFile ''/data/logs/2019-07-04-030405.log''
           (Inr (File ''/data/logs/2019-07-04-030405.log'')),
         AddHook (File ''/data/logs/2019-07-04-030405.log'')],
        Inr (Some (File ''/data/logs/2019-07-04-030405.log'')))"
    by (rule logFile_ex) (simp_all add: cfg_port_def app_ex_def)
  have a: "WebInterfaceAddr (App cfg_port) = ''127.0.0.1''"
          "daemonMode (App cfg_port) = DeviceTypeUSB" "ProfileCPU (App cfg_port) = False"
    by (simp_all add: cfg_port_def app_ex_def)
  have c: "file_Close env_ex (File ''/data/logs/2019-07-04-030405.log'') = None"
    by (simp add: env_ex_def)
  show ?thesis
    by (simp add: Run_start_def l f p g h s a c earlyShutdown_def)
qed

lemma start_ex:
  "Run_start env_ex cfg_ex
     = \<lparr>trace =
          [LevelFromString ''info'' (Inr 4), SetLevel 4, DisableColors,
           Stat ''/data/logs'' None,
           OpenFile ''/data/logs/2019-07-04-030405.log''
             (Inr (File ''/data/logs/2019-07-04-030405.log'')),
           AddHook (File ''/data/logs/2019-07-04-030405.log''),
           GoCatchInterrupt, GoCatchDebug,
           ApiCreate ''127.0.0.1:9510''
             \<lparr>api_EnableCSRF = True, api_DisableHeaderCheck = False, api_HostWhitelist = [],
              api_Mode = DeviceTypeUSB, api_Build = ''v1''\<rparr>
             (NewGateway (NewDevice DeviceTypeUSB)) (Inr (Server ''127.0.0.1:9510'')),
           WgAdd, GoServe (Server ''127.0.0.1:9510'')],
        pc = AtSelect, worker = Serving, errC = [], quit = False, wg = 1,
        apiServer = Some (Server ''127.0.0.1:9510''), retErr = None,
        logFile = Some (File ''/data/logs/2019-07-04-030405.log''), profiling = False\<rparr>"
proof -
  have p: "Run_profile env_ex cfg_ex = ([], None)"
    by (simp add: Run_profile_def cfg_ex_def app_ex_def)
  have g: "Run_goroutines cfg_ex = [GoCatchInterrupt, GoCatchDebug]"
    by (simp add: Run_goroutines_def cfg_ex_def app_ex_def)
  have h: "sprint_d (WebInterfacePort (App cfg_ex)) = ''9510''"
    by (simp add: sprint_d_def cfg_ex_def app_ex_def dec_ex)
  have s: "createServer env_ex cfg_ex ''127.0.0.1:9510'' (NewGateway (NewDevice DeviceTypeUSB))
        = ([ApiCreate ''127.0.0.1:9510''
             \<lparr>api_EnableCSRF = True, api_DisableHeaderCheck = False, api_HostWhitelist = [],
              api_Mode = DeviceTypeUSB, api_Build = ''v1''\<rparr>
             (NewGateway (NewDevice DeviceTypeUSB)) (Inr (Server ''127.0.0.1:9510''))],
           Inr (Server ''127.0.0.1:9510''))"
    by (simp add: createServer_def cfg_ex_def app_ex_def env_ex_def)
  have l: "Run_level env_ex cfg_ex
           = ([LevelFromString ''info'' (Inr 4), SetLevel 4, DisableColors], Inr 4)"
    by (rule level_ex) (simp_all add: cfg_ex_def app_ex_def)
  have f: "Run_logFile env_ex cfg_ex
     = ([Stat ''/data/logs'' None,
         OpenFile ''/data/logs/2019-07-04-030405.log''
           (Inr (File ''/data/logs/2019-07-04-030405.log'')),
         AddHook (File ''/data/logs/2019-07-04-030405.log'')],
        Inr (Some (File ''/data/logs/2019-07-04-030405.log'')))"
    by (rule logFile_ex) (simp_all add: cfg_ex_def app_ex_def)
  have a: "WebInterfaceAddr (App cfg_ex) = ''127.0.0.1''"
          "daemonMode (App cfg_ex) = DeviceTypeUSB" "ProfileCPU (App cfg_ex) = False"
    by (simp_all add: cfg_ex_def app_ex_def)
  show ?thesis
    by (simp add: Run_start_def l f p g h s a)
qed


section \<open>Properties\<close>

subsection \<open>\<^verbatim>\<open>TransactionInput.Validate\<close>\<close>

text \<open>
  Claim C9. For every \<^verbatim>\<open>TransactionInput\<close>, \<^verbatim>\<open>Validate\<close> returns nil exactly when
  \<^verbatim>\<open>Hash\<close> and \<^verbatim>\<open>Index\<close> are both non-nil; otherwise it returns a composite validation
  error that names each missing field, \<^verbatim>\<open>hash\<close> before \<^verbatim>\<open>index\<close>. The result depends on
  nothing but which of the two pointers are nil, so no other condition is put on the values.
\<close>

theorem Validate_required_fields:
  "(Validate m = None) = (Hash m \<noteq> None \<and> Index m \<noteq> None)
   \<and> Validate m =
       (if Hash m \<noteq> None \<and> Index m \<noteq> None then None
        else Some (CompositeValidationError
               ((if Hash m = None then [Required ''hash'' ''body''] else [])
                @ (if Index m = None then [Required ''index'' ''body''] else []))))"
  by (cases "Hash m"; cases "Index m")
     (simp_all add: Validate_def validateHash_def validateIndex_def validate_Required_def)

theorem Validate_required_fields_witness:
  "Validate \<lparr>Hash = Some ''abc'', Index = Some 0\<rparr> = None
   \<and> Validate \<lparr>Hash = None, Index = Some 7\<rparr>
       = Some (CompositeValidationError [Required ''hash'' ''body''])
   \<and> Validate \<lparr>Hash = None, Index = None\<rparr>
       = Some (CompositeValidationError [Required ''hash'' ''body'', Required ''index'' ''body''])"
  using Validate_required_fields [of "\<lparr>Hash = Some ''abc'', Index = Some 0\<rparr>"]
        Validate_required_fields [of "\<lparr>Hash = None, Index = Some 7\<rparr>"]
        Validate_required_fields [of "\<lparr>Hash = None, Index = None\<rparr>"]
  by simp

subsection \<open>\<^verbatim>\<open>createDirIfNotExist\<close>\<close>

text \<open>
  Claim C10. \<^verbatim>\<open>createDirIfNotExist\<close> returns nil, without calling \<^verbatim>\<open>os.Mkdir\<close>, whenever
  \<^verbatim>\<open>os.Stat\<close> answers anything but a does-not-exist error: on success and also on any other
  failure, such as a permission error, which is dropped. Only when the path does not exist
  does it call \<^verbatim>\<open>os.Mkdir\<close>, and then it returns what \<^verbatim>\<open>os.Mkdir\<close> returns.
\<close>

theorem createDirIfNotExist_swallows_stat_error:
  "(\<not> os_IsNotExist (os_Stat e dir) \<longrightarrow>
      snd (createDirIfNotExist e dir) = None
      \<and> calls is_Mkdir (fst (createDirIfNotExist e dir)) = 0)
   \<and> (os_Stat e dir = Some (PathError op path EACCES) \<longrightarrow>
        createDirIfNotExist e dir = ([Stat dir (Some (PathError op path EACCES))], None))
   \<and> (os_IsNotExist (os_Stat e dir) \<longrightarrow>
        createDirIfNotExist e dir
          = ([Stat dir (os_Stat e dir), Mkdir dir (os_Mkdir e dir)], os_Mkdir e dir))
   \<and> ((calls is_Mkdir (fst (createDirIfNotExist e dir)) > 0) = os_IsNotExist (os_Stat e dir))"
  by (cases "os_IsNotExist (os_Stat e dir)")
     (auto simp add: createDirIfNotExist_def calls_def Let_def)

theorem createDirIfNotExist_swallows_stat_error_witness:
  "\<not> os_IsNotExist (os_Stat env_ex ''/denied/logs'')
   \<and> os_Stat env_ex ''/denied/logs'' = Some (PathError ''stat'' ''/denied/logs'' EACCES)
   \<and> createDirIfNotExist env_ex ''/denied/logs''
       = ([Stat ''/denied/logs'' (Some (PathError ''stat'' ''/denied/logs'' EACCES))], None)
   \<and> os_IsNotExist (os_Stat env_ex ''/new/logs'')
   \<and> createDirIfNotExist env_ex ''/new/logs''
       = ([Stat ''/new/logs'' (Some (PathError ''stat'' ''/new/logs'' ENOENT)),
           Mkdir ''/new/logs'' None], None)"
  using createDirIfNotExist_swallows_stat_error
          [of env_ex "''/denied/logs''" "''stat''" "''/denied/logs''"]
        createDirIfNotExist_swallows_stat_error
          [of env_ex "''/new/logs''" "''stat''" "''/new/logs''"]
  by (simp add: env_ex_def)

subsection \<open>The sequential part of \<^verbatim>\<open>Run\<close>\<close>


text \<open>
  Claim C4. When the level parser rejects the configured log level, \<^verbatim>\<open>Run\<close> returns the
  error \<^verbatim>\<open>invalid -log-level: ...\<close> that wraps the parser's error, whatever the schedule;
  the whole run consists of the call of the parser and the logging of that error, so
  \<^verbatim>\<open>api.Create\<close> is never called.
\<close>

theorem Run_invalid_log_level:
  assumes "logging_LevelFromString e (LogLevel (App c)) = Inl err"
  shows "pc (Run e c sch) = Returned (Some (ErrorString (''invalid -log-level: '' @ Error err)))
         \<and> trace (Run e c sch)
             = [LevelFromString (LogLevel (App c)) (Inl err),
                LogError (''invalid -log-level: '' @ Error err)]
         \<and> calls is_ApiCreate (trace (Run e c sch)) = 0"
proof -
  have "Run_start e c
        = returned [LevelFromString (LogLevel (App c)) (Inl err),
                    LogError (''invalid -log-level: '' @ Error err)]
            (ErrorString (''invalid -log-level: '' @ Error err)) None"
    using assms by (simp add: Run_start_def Run_level_def)
  moreover from this have "Run e c sch = Run_start e c"
    by (simp add: Run_returned returned_def)
  ultimately show ?thesis
    by (simp add: returned_def calls_def)
qed

theorem Run_invalid_log_level_witness:
  "logging_LevelFromString env_ex (LogLevel (App cfg_level))
     = Inl (ErrorString ''could not convert string to log level'')
   \<and> pc (Run env_ex cfg_level finish)
       = Returned (Some (ErrorString ''invalid -log-level: could not convert string to log level''))
   \<and> trace (Run env_ex cfg_level finish)
       = [LevelFromString ''loud'' (Inl (ErrorString ''could not convert string to log level'')),
          LogError ''invalid -log-level: could not convert string to log level'']
   \<and> calls is_ApiCreate (trace (Run env_ex cfg_level finish)) = 0"
proof -
  have l: "LogLevel (App cfg_level) = ''loud''"
    by (simp add: cfg_level_def app_ex_def)
  have h: "logging_LevelFromString env_ex (LogLevel (App cfg_level))
             = Inl (ErrorString ''could not convert string to log level'')"
    by (simp add: l) (simp add: env_ex_def)
  show ?thesis
    using Run_invalid_log_level [OF h, of finish] h l by (simp add: calls_def)
qed

text \<open>
  Claim C2, as stated, does not hold. With CPU profiling to \<^verbatim>\<open>/tmp/busy.prof\<close>, which
  \<^verbatim>\<open>pprof.StartCPUProfile\<close> refuses, \<^verbatim>\<open>Run\<close> logs the failure and returns it as its error:
  the run ends there, before the goroutines are started and the server is built.
\<close>

theorem Run_profile_failure_not_fatal_counterexample:
  "ProfileCPU (App cfg_profiler)
   \<and> pprof_StartCPUProfile env_ex (File ''/tmp/busy.prof'')
       = Some (ErrorString ''cpu profiling already in use'')
   \<and> pc (Run env_ex cfg_profiler finish)
       = Returned (Some (ErrorString ''cpu profiling already in use''))
   \<and> trace (Run env_ex cfg_profiler finish)
       = [LevelFromString ''info'' (Inr 4), SetLevel 4, DisableColors,
          Stat ''/data/logs'' None,
          OpenFile ''/data/logs/2019-07-04-030405.log''
            (Inr (File ''/data/logs/2019-07-04-030405.log'')),
          AddHook (File ''/data/logs/2019-07-04-030405.log''),
          Create ''/tmp/busy.prof'' (Inr (File ''/tmp/busy.prof'')),
          StartCPUProfile (File ''/tmp/busy.prof'')
            (Some (ErrorString ''cpu profiling already in use'')),
          LogError ''cpu profiling already in use'']"
proof -
  have "Run env_ex cfg_profiler finish = Run_start env_ex cfg_profiler"
    by (simp add: Run_returned start_profiler returned_def)
  then show ?thesis
    by (simp add: start_profiler returned_def)
       (simp add: cfg_profiler_def app_ex_def env_ex_def)
qed

text \<open>
  Claim C2, amended. In every run in which \<^verbatim>\<open>os.Create\<close> of the profile file or
  \<^verbatim>\<open>pprof.StartCPUProfile\<close> fails, the failure is logged and is fatal: \<^verbatim>\<open>Run\<close> returns
  that failure as its error, and \<^verbatim>\<open>api.Create\<close> is never called.
\<close>

theorem Run_profile_failure_is_fatal:
  assumes "Create p (Inl err) \<in> set (trace (Run e c sch))
           \<or> StartCPUProfile f (Some err) \<in> set (trace (Run e c sch))"
  shows "pc (Run e c sch) = Returned (Some err)
         \<and> LogError (Error err) \<in> set (trace (Run e c sch))
         \<and> calls is_ApiCreate (trace (Run e c sch)) = 0"
proof -
  let ?P = "\<lambda>tr. Create p (Inl err) \<in> set tr \<or> StartCPUProfile f (Some err) \<in> set tr"
  have H: "?P (trace (Run_start e c))"
    using assms by (simp add: Run_def exec_early)
  have n1: "\<not> ?P (fst (Run_level e c))"
    using level_events [of _ e c] by fastforce
  have n2: "\<not> ?P (fst (Run_logFile e c))"
    using logFile_events [of _ e c] by fastforce
  show ?thesis
  proof (cases rule: Run_start_cases [of e c])
    case (level err')
    then show ?thesis using H n1 by (simp add: returned_def)
  next
    case (logFile err')
    then show ?thesis using H n1 n2 by (auto simp: returned_def)
  next
    case (profile err' lf)
    then have "?P (fst (Run_profile e c))"
      using H n1 n2 by (auto simp: returned_def)
    then have e: "err' = err" and l: "LogError (Error err) \<in> set (fst (Run_profile e c))"
      using profile_failed [of p err e c f] profile(2) by auto
    have r: "Run e c sch = Run_start e c"
      using profile(3) by (simp add: Run_returned returned_def)
    have "\<forall>x\<in>set (fst (Run_level e c) @ fst (Run_logFile e c) @ fst (Run_profile e c)).
            \<not> is_ApiCreate x"
      using level_events [of _ e c] logFile_events [of _ e c] profile_events [of _ e c]
            not_ApiCreate
      by auto
    then show ?thesis
      using profile(3) e l r by (simp add: returned_def calls_0)
  next
    case (noserver err' lf ev)
    let ?s = "\<lparr>trace = fst (Run_level e c) @ fst (Run_logFile e c) @ fst (Run_profile e c)
                       @ ev @ [LogError (Error err')],
              pc = AtWait, worker = NotStarted, errC = [], quit = False, wg = 0,
              apiServer = None, retErr = Some err', logFile = lf,
              profiling = ProfileCPU (App c)\<rparr>"
    obtain new where new: "trace (Run_start e c) = trace ?s @ new" "list_all late_event new"
      using earlyShutdown_trace [of e ?s] noserver(5) by auto
    have "\<not> ?P ev" using noserver(3) by fastforce
    moreover have "\<not> ?P new" using new(2) by (fastforce simp: list_all_iff)
    ultimately have "?P (fst (Run_profile e c))"
      using H n1 n2 new(1) by auto
    then show ?thesis
      using profile_failed [of p err e c f] noserver(2) by auto
  next
    case (server srv lf ev)
    have "\<not> ?P ev" using server(3) by fastforce
    then have "?P (fst (Run_profile e c))"
      using H n1 n2 server(6) by auto
    then show ?thesis
      using profile_failed [of p err e c f] server(2) by auto
  qed
qed

theorem Run_profile_failure_is_fatal_witness:
  "(Create ''/ro/cpu.prof'' (Inl (PathError ''open'' ''/ro/cpu.prof'' EACCES))
      \<in> set (trace (Run env_ex cfg_profile finish))
    \<or> StartCPUProfile (File ''/ro/cpu.prof'') (Some (PathError ''open'' ''/ro/cpu.prof'' EACCES))
      \<in> set (trace (Run env_ex cfg_profile finish)))
   \<and> pc (Run env_ex cfg_profile finish)
       = Returned (Some (PathError ''open'' ''/ro/cpu.prof'' EACCES))
   \<and> LogError ''open /ro/cpu.prof: permission denied''
       \<in> set (trace (Run env_ex cfg_profile finish))
   \<and> calls is_ApiCreate (trace (Run env_ex cfg_profile finish)) = 0"
proof -
  have "Run env_ex cfg_profile finish = Run_start env_ex cfg_profile"
    by (simp add: Run_returned start_profile returned_def)
  then have "Create ''/ro/cpu.prof'' (Inl (PathError ''open'' ''/ro/cpu.prof'' EACCES))
      \<in> set (trace (Run env_ex cfg_profile finish))"
    by (simp add: start_profile returned_def)
  then show ?thesis
    using Run_profile_failure_is_fatal
            [of "''/ro/cpu.prof''" "PathError ''open'' ''/ro/cpu.prof'' EACCES"
                env_ex cfg_profile finish "File ''/ro/cpu.prof''"]
    by simp
qed

text \<open>
  Claim C5. In every run in which \<^verbatim>\<open>api.Create\<close> fails, \<^verbatim>\<open>Run\<close> returns the error of
  \<^verbatim>\<open>api.Create\<close>, \<^verbatim>\<open>Shutdown\<close> is never called, and a log file that was opened is closed
  exactly once.
\<close>

theorem Run_server_construction_failure:
  assumes "ApiCreate h a g (Inl err) \<in> set (trace (Run e c sch))"
  shows "pc (Run e c sch) = Returned (Some err)
         \<and> calls is_Shutdown (trace (Run e c sch)) = 0
         \<and> (\<forall>p f. OpenFile p (Inr f) \<in> set (trace (Run e c sch))
                \<longrightarrow> calls (is_Close f) (trace (Run e c sch)) = 1)"
proof -
  let ?A = "ApiCreate h a g (Inl err)"
  have H: "?A \<in> set (trace (Run_start e c))"
    using assms by (simp add: Run_def exec_early)
  have n1: "?A \<notin> set (fst (Run_level e c))"
    using level_events [of ?A e c] by auto
  have n2: "?A \<notin> set (fst (Run_logFile e c))"
    using logFile_events [of ?A e c] by auto
  have n3: "?A \<notin> set (fst (Run_profile e c))"
    using profile_events [of ?A e c] by auto
  show ?thesis
  proof (cases rule: Run_start_cases [of e c])
    case (level err')
    then show ?thesis using H n1 by (simp add: returned_def)
  next
    case (logFile err')
    then show ?thesis using H n1 n2 by (simp add: returned_def)
  next
    case (profile err' lf)
    then show ?thesis using H n1 n2 n3 by (simp add: returned_def)
  next
    case (noserver err' lf ev)
    let ?s = "\<lparr>trace = fst (Run_level e c) @ fst (Run_logFile e c) @ fst (Run_profile e c)
                       @ ev @ [LogError (Error err')],
              pc = AtWait, worker = NotStarted, errC = [], quit = False, wg = 0,
              apiServer = None, retErr = Some err', logFile = lf,
              profiling = ProfileCPU (App c)\<rparr>"
    obtain new where new: "trace (Run_start e c) = trace ?s @ new" "list_all late_event new"
      using earlyShutdown_trace [of e ?s] noserver(5) by auto
    have "?A \<notin> set new" using new(2) by (fastforce simp: list_all_iff)
    then have "?A \<in> set ev" using H n1 n2 n3 new(1) by auto
    then have e: "err' = err" using noserver(4) by blast
    have r: "Run e c sch = Run_start e c"
      using noserver(5) by (simp add: Run_returned)
    have evs: "\<forall>x\<in>set (trace ?s). in_level x \<or> in_logFile x \<or> in_profile x \<or> in_server x"
      using level_events [of _ e c] logFile_events [of _ e c] profile_events [of _ e c]
            noserver(3)
      by auto
    have sh: "calls is_Shutdown (trace ?s) = 0"
      unfolding calls_0 using evs not_Shutdown by blast
    have cl: "calls (is_Close f) (trace ?s) = 0" for f
      unfolding calls_0 using evs not_Close by blast
    have op: "lf = Some f" if "OpenFile p (Inr f) \<in> set (trace (Run_start e c))" for p f
    proof -
      have "OpenFile p (Inr f) \<notin> set new" using new(2) by (fastforce simp: list_all_iff)
      moreover have "OpenFile p (Inr f) \<notin> set (fst (Run_level e c))"
        using level_events [of "OpenFile p (Inr f)" e c] by auto
      moreover have "OpenFile p (Inr f) \<notin> set (fst (Run_profile e c))"
        using profile_events [of "OpenFile p (Inr f)" e c] by auto
      moreover have "OpenFile p (Inr f) \<notin> set ev"
        using noserver(3) by fastforce
      ultimately have "OpenFile p (Inr f) \<in> set (fst (Run_logFile e c))"
        using that new(1) by auto
      then show ?thesis using logFile_opened noserver(1) by fastforce
    qed
    have "pc (Run_start e c) = Returned (Some err)"
      using noserver(5) e by simp
    moreover have "calls is_Shutdown (trace (Run_start e c)) = 0"
      using sh noserver(5) earlyShutdown_Shutdown [of e ?s] by simp
    moreover have "calls (is_Close f) (trace (Run_start e c)) = 1"
      if "OpenFile p (Inr f) \<in> set (trace (Run_start e c))" for p f
      using op [OF that] cl [of f] noserver(5) earlyShutdown_Close [of f e ?s] by simp
    ultimately show ?thesis
      unfolding r by blast
  next
    case (server srv lf ev)
    have "?A \<in> set ev" using H n1 n2 n3 server(6) by auto
    then show ?thesis using server(4) by blast
  qed
qed

theorem Run_server_construction_failure_witness:
  "ApiCreate ''127.0.0.1:80''
     \<lparr>api_EnableCSRF = True, api_DisableHeaderCheck = False, api_HostWhitelist = [],
      api_Mode = DeviceTypeUSB, api_Build = ''v1''\<rparr>
     (NewGateway (NewDevice DeviceTypeUSB)) (Inl (ErrorString ''device not found''))
     \<in> set (trace (Run env_ex cfg_port finish))
   \<and> OpenFile ''/data/logs/2019-07-04-030405.log''
       (Inr (File ''/data/logs/2019-07-04-030405.log''))
     \<in> set (trace (Run env_ex cfg_port finish))
   \<and> pc (Run env_ex cfg_port finish) = Returned (Some (ErrorString ''device not found''))
   \<and> calls is_Shutdown (trace (Run env_ex cfg_port finish)) = 0
   \<and> calls (is_Close (File ''/data/logs/2019-07-04-030405.log''))
       (trace (Run env_ex cfg_port finish)) = 1"
proof -
  have r: "Run env_ex cfg_port finish = Run_start env_ex cfg_port"
    by (simp add: Run_returned start_port)
  have a: "ApiCreate ''127.0.0.1:80''
     \<lparr>api_EnableCSRF = True, api_DisableHeaderCheck = False, api_HostWhitelist = [],
      api_Mode = DeviceTypeUSB, api_Build = ''v1''\<rparr>
     (NewGateway (NewDevice DeviceTypeUSB)) (Inl (ErrorString ''device not found''))
     \<in> set (trace (Run env_ex cfg_port finish))"
    unfolding r by (simp add: start_port)
  have b: "OpenFile ''/data/logs/2019-07-04-030405.log''
       (Inr (File ''/data/logs/2019-07-04-030405.log''))
     \<in> set (trace (Run env_ex cfg_port finish))"
    unfolding r by (simp add: start_port)
  show ?thesis
    using Run_server_construction_failure [OF a] a b by blast
qed

text \<open>
  Claim C1 does not hold of the code. With file logging and CPU profiling both on, the log
  file is opened; \<^verbatim>\<open>os.Create\<close> of the profile file then fails and \<^verbatim>\<open>Run\<close> leaves by
  \<^verbatim>\<open>return err\<close>, not by \<^verbatim>\<open>goto earlyShutdown\<close>: the run ends with the logging of the
  error and the log file is never closed.
\<close>

theorem Run_profile_failure_leaves_log_file_open:
  "LogToFile (App cfg_profile)
   \<and> pc (Run env_ex cfg_profile finish)
       = Returned (Some (PathError ''open'' ''/ro/cpu.prof'' EACCES))
   \<and> trace (Run env_ex cfg_profile finish)
       = [LevelFromString ''info'' (Inr 4), SetLevel 4, DisableColors,
          Stat ''/data/logs'' None,
          OpenFile ''/data/logs/2019-07-04-030405.log''
            (Inr (File ''/data/logs/2019-07-04-030405.log'')),
          AddHook (File ''/data/logs/2019-07-04-030405.log''),
          Create ''/ro/cpu.prof'' (Inl (PathError ''open'' ''/ro/cpu.prof'' EACCES)),
          LogError ''open /ro/cpu.prof: permission denied'']
   \<and> calls (is_Close (File ''/data/logs/2019-07-04-030405.log''))
       (trace (Run env_ex cfg_profile finish)) = 0"
proof -
  have "Run env_ex cfg_profile finish = Run_start env_ex cfg_profile"
    by (simp add: Run_returned start_profile returned_def)
  then show ?thesis
    by (simp add: start_profile returned_def calls_def)
       (simp add: cfg_profile_def app_ex_def)
qed

text \<open>
  Claim C3 does not hold of the code. The layout \<^verbatim>\<open>2006-01-02-030405\<close> has the hour as
  \<^verbatim>\<open>03\<close>, the hour of the 12-hour clock: at 15:04:05 on 4 July 2019 the log file is
  \<^verbatim>\<open>/data/logs/2019-07-04-030405.log\<close>, where the claim has \<^verbatim>\<open>2019-07-04-150405.log\<close>.
\<close>

theorem initLogFile_twelve_hour_clock:
  "time_Now env_ex = \<lparr>year = 2019, month = 7, day = 4, hour = 15, minute = 4, second = 5\<rparr>
   \<and> DataDirectory (App cfg_ex) = ''/data''
   \<and> initLogFile env_ex cfg_ex
       = ([Stat ''/data/logs'' None,
           OpenFile ''/data/logs/2019-07-04-030405.log''
             (Inr (File ''/data/logs/2019-07-04-030405.log'')),
           AddHook (File ''/data/logs/2019-07-04-030405.log'')],
          Inr (File ''/data/logs/2019-07-04-030405.log''))"
proof -
  have d: "DataDirectory (App cfg_ex) = ''/data''"
    by (simp add: cfg_ex_def app_ex_def)
  show ?thesis
    using initLogFile_ex [OF d] d by (simp add: env_ex_def)
qed


end
